theory Spec2Isabelle
  imports Complex_Main
begin

section \<open>Python and NumPy values\<close>

text \<open>
  The two modules under study are Python: \<^verbatim>\<open>gisnav/core/transform_node.py\<close> (admission
  gate, image aligner, geopose reconstruction) and
  \<^verbatim>\<open>python_px4_ros2_map_nav/kalman.py\<close> (position smoother).

  The value of a finite 64-bit float is a real. The rounding of an operation is
  modelled where a claim turns on it (the sum and the quotient of the UTM zone);
  elsewhere the operations are those of the reals. Not-a-number is modelled where the
  code tests for it or an operation can produce it (the terrain altitude,
  \<^verbatim>\<open>np.arcsin\<close>); infinities are not modelled. An exception is a value of
  \<open>py_error\<close>, the left summand of a result.
\<close>

datatype py_error =
  AssertionError | ValueError | IndexError | NameError | AttributeError | CvError

text \<open>
  A Python float object. \<^verbatim>\<open>x is np.nan\<close> compares object identity, so the model
  keeps apart the one object bound to the name \<^verbatim>\<open>np.nan\<close> and every other float
  object whose value is not-a-number (a deserialised message field, the result of an
  arithmetic operation).
\<close>

datatype pyfloat = Flt real | NumpyNaN | OtherNaN

definition is_np_nan :: "pyfloat \<Rightarrow> bool" where
  "is_np_nan v = (case v of NumpyNaN \<Rightarrow> True | _ \<Rightarrow> False)"

definition isnan :: "pyfloat \<Rightarrow> bool" where
  "isnan v = (case v of Flt _ \<Rightarrow> False | _ \<Rightarrow> True)"

text \<open>Comparisons with a not-a-number operand are false.\<close>

definition flt_lt :: "pyfloat \<Rightarrow> real \<Rightarrow> bool" where
  "flt_lt v b = (case v of Flt a \<Rightarrow> a < b | _ \<Rightarrow> False)"

definition flt_gt :: "pyfloat \<Rightarrow> real \<Rightarrow> bool" where
  "flt_gt v b = (case v of Flt a \<Rightarrow> a > b | _ \<Rightarrow> False)"

text \<open>An arithmetic operation on not-a-number yields a fresh not-a-number object.\<close>

definition flt_map :: "(real \<Rightarrow> real) \<Rightarrow> pyfloat \<Rightarrow> pyfloat" where
  "flt_map f v = (case v of Flt a \<Rightarrow> Flt (f a) | _ \<Rightarrow> OtherNaN)"








text \<open>\<^verbatim>\<open>a % b\<close> on floats, \<open>b \<noteq> 0\<close>: the remainder takes the sign of the divisor.\<close>

definition py_fmod :: "real \<Rightarrow> real \<Rightarrow> real" where
  "py_fmod a b = a - b * of_int \<lfloor>a / b\<rfloor>"

definition np_degrees :: "real \<Rightarrow> real" where
  "np_degrees x = x * 180 / pi"

text \<open>\<^verbatim>\<open>np.arctan2(y, x)\<close>: the angle of the point \<open>(x, y)\<close>, in \<open>(-pi, pi]\<close>.\<close>

definition np_arctan2 :: "real \<Rightarrow> real \<Rightarrow> real" where
  "np_arctan2 y x =
     (if 0 < x then arctan (y / x)
      else if x < 0 \<and> 0 \<le> y then arctan (y / x) + pi
      else if x < 0 then arctan (y / x) - pi
      else if 0 < y then pi / 2
      else if y < 0 then - (pi / 2)
      else 0)"

text \<open>\<^verbatim>\<open>np.arcsin\<close> returns not-a-number outside \<open>[-1, 1]\<close>.\<close>

definition np_arcsin :: "real \<Rightarrow> pyfloat" where
  "np_arcsin s = (if -1 \<le> s \<and> s \<le> 1 then Flt (arcsin s) else OtherNaN)"

section \<open>Messages\<close>

text \<open>
  A two-dimensional array is a list of rows. A raster is a list of rows of pixels, a
  pixel a list of channel values; a grayscale image has one value per pixel.
\<close>

type_synonym matrix = "real list list"

type_synonym raster = "nat list list list"

type_synonym gray = "nat list list"

record quaternion =
  qx :: real
  qy :: real
  qz :: real
  qw :: real

record geopoint =
  latitude :: real
  longitude :: real
  gp_altitude :: real

record geopose =
  position :: geopoint
  orientation :: quaternion

record image_msg =
  stamp :: nat
  frame_id :: string
  pixels :: raster

record altitude_msg =
  monotonic :: real
  amsl :: real
  local_alt :: real
  relative_alt :: real
  terrain :: pyfloat
  bottom_clearance :: real

section \<open>Yaw extraction and UTM zone\<close>

text \<open>\<^verbatim>\<open>TransformNode._extract_yaw\<close>.\<close>

definition extract_yaw :: "quaternion \<Rightarrow> real" where
  "extract_yaw q =
     (let enu_yaw = np_arctan2 (2 * (qw q * qz q + qx q * qy q))
                               (1 - 2 * ((qy q)\<^sup>2 + (qz q)\<^sup>2));
          enu_yaw_deg = np_degrees enu_yaw;
          heading = 90 - enu_yaw_deg
      in py_fmod (heading + 360) 360)"


section \<open>Admission gate\<close>

text \<open>
  The attributes of \<^verbatim>\<open>TransformNode\<close> that the gate and the image pipeline read
  (\<^verbatim>\<open>image_in\<close> stands for \<^verbatim>\<open>self.image\<close>). Each is a cached subscription or a
  parameter and may be absent (\<^verbatim>\<open>None\<close>).
  \<^verbatim>\<open>self.altitude\<close> is read by \<^verbatim>\<open>_should_estimate_geopose\<close> although the class declares
  no such property: it is an input of the model.
\<close>

record transform_node =
  orthoimage :: "image_msg option"
  camera_geopose :: "geopose option"
  image_in :: "image_msg option"
  altitude :: "altitude_msg option"
  max_pitch :: "int option"
  min_match_altitude :: "int option"

text \<open>\<^verbatim>\<open>TransformNode._off_nadir_pitch\<close>.\<close>

definition off_nadir_pitch :: "quaternion \<Rightarrow> pyfloat" where
  "off_nadir_pitch q =
     (let pitch_angle = np_arcsin (2 * (qw q * qy q - qx q * qz q));
          off_nadir_angle = flt_map (\<lambda>p. pi / 2 - p) pitch_angle
      in flt_map np_degrees off_nadir_angle)"

text \<open>
  \<^verbatim>\<open>TransformNode._camera_roll_or_pitch_too_high\<close>. The limit is an int or a float; the
  log lines are left out.
\<close>

definition camera_roll_or_pitch_too_high :: "transform_node \<Rightarrow> real \<Rightarrow> bool" where
  "camera_roll_or_pitch_too_high node limit =
     (case camera_geopose node of
        Some g \<Rightarrow>
          (let off_nadir_pitch_deg = off_nadir_pitch (orientation g)
           in if flt_gt off_nadir_pitch_deg limit then True else False)
      | None \<Rightarrow> True)"

text \<open>
  The inner function \<^verbatim>\<open>_should_estimate\<close> of \<^verbatim>\<open>_should_estimate_geopose\<close>: the pitch
  check, the assertion on the threshold, the identity test against \<^verbatim>\<open>np.nan\<close>, the
  strict comparison with the threshold.
\<close>

definition should_estimate ::
  "transform_node \<Rightarrow> altitude_msg \<Rightarrow> int \<Rightarrow> int \<Rightarrow> py_error + bool" where
  "should_estimate node alt max_p min_alt =
     (if camera_roll_or_pitch_too_high node (of_int max_p) then Inr False
      else if \<not> 0 < min_alt then Inl AssertionError
      else if is_np_nan (terrain alt) then Inr False
      else if flt_lt (terrain alt) (of_int min_alt) then Inr False
      else Inr True)"

text \<open>
  Modelled from the spec: the decorator \<^verbatim>\<open>narrow_types\<close> of \<^verbatim>\<open>gisnav._decorators\<close>, which
  is not among the sources. By section 7 of the spec a required value that is absent
  skips the cycle: the decorated function is not run and the call returns \<^verbatim>\<open>None\<close>.
\<close>

definition narrow_types3 ::
  "('a \<Rightarrow> 'b \<Rightarrow> 'c \<Rightarrow> py_error + 'r) \<Rightarrow> 'a option \<Rightarrow> 'b option \<Rightarrow> 'c option
     \<Rightarrow> py_error + 'r option" where
  "narrow_types3 f a b c =
     (case (a, b, c) of
        (Some x, Some y, Some z) \<Rightarrow>
          (case f x y z of Inl e \<Rightarrow> Inl e | Inr r \<Rightarrow> Inr (Some r))
      | _ \<Rightarrow> Inr None)"

text \<open>\<^verbatim>\<open>bool(x)\<close> of an optional boolean: \<^verbatim>\<open>bool(None)\<close> is false.\<close>

definition py_bool :: "bool option \<Rightarrow> bool" where
  "py_bool r = (case r of None \<Rightarrow> False | Some b \<Rightarrow> b)"

text \<open>\<^verbatim>\<open>TransformNode._should_estimate_geopose\<close>.\<close>

definition should_estimate_geopose :: "transform_node \<Rightarrow> py_error + bool" where
  "should_estimate_geopose node =
     (case narrow_types3 (should_estimate node)
             (altitude node) (max_pitch node) (min_match_altitude node) of
        Inl e \<Rightarrow> Inl e
      | Inr r \<Rightarrow> Inr (py_bool r))"

text \<open>
  Example inputs: a unit quaternion whose pitch is 90 degrees (the camera looks straight
  down), the same quaternion in doubles (both components the double nearest to the
  square root of one half, \<^verbatim>\<open>0.7071067811865476\<close>, which is 6369051672525773
  over 2 to the power 53), and a node that holds the first with the default limits of
  the class
  (\<^verbatim>\<open>ROS_D_MISC_MAX_PITCH = 30\<close>, \<^verbatim>\<open>ROS_D_MISC_MIN_MATCH_ALTITUDE = 80\<close>).
\<close>

definition nadir_quaternion :: quaternion where
  "nadir_quaternion = \<lparr>qx = 0, qy = sqrt 2 / 2, qz = 0, qw = sqrt 2 / 2\<rparr>"

definition double_nadir_quaternion :: quaternion where
  "double_nadir_quaternion =
     \<lparr>qx = 0, qy = 6369051672525773 / 9007199254740992,
      qz = 0, qw = 6369051672525773 / 9007199254740992\<rparr>"

definition nadir_geopose :: geopose where
  "nadir_geopose =
     \<lparr>position = \<lparr>latitude = 60, longitude = 24, gp_altitude = 120\<rparr>,
      orientation = nadir_quaternion\<rparr>"

definition node_at :: "pyfloat \<Rightarrow> transform_node" where
  "node_at agl =
     \<lparr>orthoimage = None,
      camera_geopose = Some nadir_geopose,
      image_in = None,
      altitude = Some \<lparr>monotonic = 0, amsl = 0, local_alt = 0, relative_alt = 0,
                        terrain = agl, bottom_clearance = 0\<rparr>,
      max_pitch = Some 30,
      min_match_altitude = Some 80\<rparr>"

section \<open>Arrays and the OpenCV calls\<close>

definition np_shape :: "'a list list \<Rightarrow> nat \<times> nat" where
  "np_shape m = (length m, case m of [] \<Rightarrow> 0 | r # _ \<Rightarrow> length r)"

definition img_height :: "'a list list \<Rightarrow> int" where
  "img_height im = int (fst (np_shape im))"

definition img_width :: "'a list list \<Rightarrow> int" where
  "img_width im = int (snd (np_shape im))"

definition img_channels :: "raster \<Rightarrow> int" where
  "img_channels im = (case im of (p # _) # _ \<Rightarrow> int (length p) | _ \<Rightarrow> 0)"

definition column :: "matrix \<Rightarrow> nat \<Rightarrow> real list" where
  "column m j = map (\<lambda>r. r ! j) m"

definition np_eye :: "nat \<Rightarrow> matrix" where
  "np_eye n = map (\<lambda>i. map (\<lambda>j. if i = j then 1 else 0) [0..<n]) [0..<n]"

text \<open>
  \<^verbatim>\<open>np.dot\<close>, \<^verbatim>\<open>np.matmul\<close> and \<^verbatim>\<open>@\<close> on two-dimensional arrays: a
  \<^verbatim>\<open>ValueError\<close> when the inner dimensions differ.
\<close>

definition np_dot :: "matrix \<Rightarrow> matrix \<Rightarrow> py_error + matrix" where
  "np_dot a b =
     (if snd (np_shape a) \<noteq> fst (np_shape b) then Inl ValueError
      else Inr (map (\<lambda>row. map (\<lambda>j. sum_list (map2 (*) row (column b j)))
                            [0..<snd (np_shape b)]) a))"

text \<open>\<^verbatim>\<open>np.delete(m, j, 1)\<close>: the array without column \<open>j\<close>.\<close>

definition np_delete_column :: "matrix \<Rightarrow> nat \<Rightarrow> matrix" where
  "np_delete_column m j = map (\<lambda>r. take j r @ drop (Suc j) r) m"

definition mat_set :: "matrix \<Rightarrow> nat \<Rightarrow> nat \<Rightarrow> real \<Rightarrow> matrix" where
  "mat_set m i j v = m[i := (m ! i)[j := v]]"

text \<open>The slice assignments \<^verbatim>\<open>m[:2, :2] = s\<close> (\<open>s\<close> of shape 2 by 2) and
  \<^verbatim>\<open>m[:2, j] = v\<close> (\<open>v\<close> of length 2).\<close>

definition assign_block_2x2 :: "matrix \<Rightarrow> matrix \<Rightarrow> matrix" where
  "assign_block_2x2 m s =
     mat_set (mat_set (mat_set (mat_set m 0 0 (s ! 0 ! 0)) 0 1 (s ! 0 ! 1))
                1 0 (s ! 1 ! 0)) 1 1 (s ! 1 ! 1)"

definition assign_column_2 :: "matrix \<Rightarrow> nat \<Rightarrow> real list \<Rightarrow> matrix" where
  "assign_column_2 m j v = mat_set (mat_set m 0 j (v ! 0)) 1 j (v ! 1)"

text \<open>
  \<^verbatim>\<open>cv2.getRotationMatrix2D(center, angle, scale)\<close>, by the formula of the OpenCV
  documentation: the angle is in degrees.
\<close>

definition getRotationMatrix2D :: "real \<times> real \<Rightarrow> real \<Rightarrow> real \<Rightarrow> matrix" where
  "getRotationMatrix2D center angle scale =
     (let a = scale * cos (angle * pi / 180);
          b = scale * sin (angle * pi / 180);
          cx = fst center;
          cy = snd center
      in [[a, b, (1 - a) * cx - b * cy],
          [- b, a, b * cx + (1 - a) * cy]])"

text \<open>
  \<^verbatim>\<open>cv2.warpAffine(image, m, dsize)\<close> resamples the raster; it is a parameter of the
  model, a function from the raster, the 2 by 3 matrix and the output size
  (width, height) to the warped raster or an OpenCV error.
\<close>

type_synonym warp = "raster \<Rightarrow> matrix \<Rightarrow> int \<times> int \<Rightarrow> py_error + raster"

section \<open>Image aligner\<close>

text \<open>\<^verbatim>\<open>TransformNode._get_rotation_matrix\<close>.\<close>

definition get_rotation_matrix :: "raster \<Rightarrow> real \<Rightarrow> matrix" where
  "get_rotation_matrix img degrees =
     (let height = img_height img;
          width = img_width img;
          cx = height div 2;
          cy = width div 2
      in getRotationMatrix2D (of_int cx, of_int cy) degrees 1)"

text \<open>\<^verbatim>\<open>TransformNode._get_translation_matrix\<close>.\<close>

definition get_translation_matrix :: "real \<Rightarrow> real \<Rightarrow> matrix" where
  "get_translation_matrix dx dy = [[1, 0, dx], [0, 1, dy]]"

text \<open>
  \<^verbatim>\<open>TransformNode._get_affine_matrix\<close>, in two parts. The first part runs to the
  assertion on the shape of \<^verbatim>\<open>affine_3d\<close> and yields \<^verbatim>\<open>r\<close>, \<^verbatim>\<open>t\<close> and
  \<^verbatim>\<open>affine_3d\<close> as they stand there: the rotation composed with the crop translation,
  padded to 4 by 4.
\<close>

definition affine_3d_composed ::
  "raster \<Rightarrow> real \<Rightarrow> int \<Rightarrow> int \<Rightarrow> py_error + matrix \<times> matrix \<times> matrix" where
  "affine_3d_composed img degrees crop_height crop_width =
     (let r = get_rotation_matrix img degrees in
      if np_shape r \<noteq> (2, 3) then Inl AssertionError
      else
        let dx = (img_height img - crop_height) div 2;
            dy = (img_width img - crop_width) div 2;
            t = get_translation_matrix (of_int dx) (of_int dy)
        in if np_shape t \<noteq> (2, 3) then Inl AssertionError
           else
             case np_dot t (r @ [[0, 0, 1]]) of
               Inl e \<Rightarrow> Inl e
             | Inr affine_2d \<Rightarrow>
                 let affine_3d = np_eye 4;
                     affine_3d = assign_block_2x2 affine_3d (map (take 2) affine_2d);
                     affine_3d = assign_column_2 affine_3d 3 (column affine_2d 2)
                 in if np_shape affine_3d \<noteq> (4, 4) then Inl AssertionError
                    else Inr (r, t, affine_3d))"

text \<open>
  The second part is the "translation hack": the translation column of \<^verbatim>\<open>t\<close> is
  reversed and negated, the product is taken again, and its entries overwrite those of
  \<^verbatim>\<open>affine_3d\<close>, which is returned.
\<close>

definition get_affine_matrix ::
  "raster \<Rightarrow> real \<Rightarrow> int \<Rightarrow> int \<Rightarrow> py_error + matrix" where
  "get_affine_matrix img degrees crop_height crop_width =
     (case affine_3d_composed img degrees crop_height crop_width of
        Inl e \<Rightarrow> Inl e
      | Inr (r, t, affine_3d) \<Rightarrow>
          let t = assign_column_2 t 2 (map uminus (rev (column (take 2 t) 2))) in
          case np_dot t (r @ [[0, 0, 1]]) of
            Inl e \<Rightarrow> Inl e
          | Inr affine_hack \<Rightarrow>
              let affine_3d = assign_block_2x2 affine_3d (map (take 2) (take 2 affine_hack));
                  affine_3d = assign_column_2 affine_3d 3 (column (take 2 affine_hack) 2)
              in Inr affine_3d)"

text \<open>
  \<^verbatim>\<open>TransformNode._rotate_and_crop_image\<close>: the shape is (height, width), the output
  size handed to the warp is (width, height).
\<close>

definition rotate_and_crop_image ::
  "warp \<Rightarrow> raster \<Rightarrow> real \<Rightarrow> int \<times> int \<Rightarrow> py_error + raster \<times> matrix" where
  "rotate_and_crop_image warpAffine img degrees shape =
     (case get_affine_matrix img degrees (fst shape) (snd shape) of
        Inl e \<Rightarrow> Inl e
      | Inr affine \<Rightarrow>
          let affine_2d = np_delete_column affine 2;
              affine_2d = take 2 affine_2d
          in case warpAffine img affine_2d (snd shape, fst shape) of
               Inl e \<Rightarrow> Inl e
             | Inr warped \<Rightarrow> Inr (warped, affine))"

text \<open>
  Example inputs: a raster of a given height and width with three channels, and a warp
  that hands back a blank raster of the requested size.
\<close>

definition blank_raster :: "nat \<Rightarrow> nat \<Rightarrow> raster" where
  "blank_raster h w = replicate h (replicate w [0, 0, 0])"

definition blank_warp :: warp where
  "blank_warp img m dsize = Inr (blank_raster (nat (snd dsize)) (nat (fst dsize)))"

section \<open>Geopose reconstruction\<close>

text \<open>
  \<^verbatim>\<open>_PoseEstimationIntermediateOutputs\<close> and \<^verbatim>\<open>_PoseEstimationContext\<close>.
\<close>

record pose_estimation_intermediate_outputs =
  affine_transform :: matrix
  camera_yaw_degrees :: real

record pose_estimation_context =
  ctx_orthoimage :: image_msg
  ctx_camera_geopose :: geopose

text \<open>
  Reading an attribute of the frozen dataclass \<^verbatim>\<open>_PoseEstimationContext\<close>: it has the
  fields \<^verbatim>\<open>orthoimage\<close> and \<^verbatim>\<open>camera_geopose\<close>; any other field name raises
  \<^verbatim>\<open>AttributeError\<close>.
\<close>

datatype context_value = ImageValue image_msg | GeoposeValue geopose

definition context_getattr ::
  "pose_estimation_context \<Rightarrow> string \<Rightarrow> py_error + context_value" where
  "context_getattr c n =
     (if n = ''orthoimage'' then Inr (ImageValue (ctx_orthoimage c))
      else if n = ''camera_geopose'' then Inr (GeoposeValue (ctx_camera_geopose c))
      else Inl AttributeError)"

text \<open>
  The inner function \<^verbatim>\<open>_pnp_image\<close>, as far as it runs: the channel assertion, the
  yaw, the crop shape taken from the query image (the conversions of \<^verbatim>\<open>cv_bridge\<close>
  keep height and width) and the aligner. The next statement, line 279, stacks
  \<^verbatim>\<open>query_array\<close> on the aligned raster. No statement of the function assigns
  \<^verbatim>\<open>query_array\<close>, the module binds no such global and it is no builtin, so reading
  it raises \<^verbatim>\<open>NameError\<close>. The statements after it are never reached: the read of
  \<^verbatim>\<open>pose\<close> and of \<^verbatim>\<open>geotransform\<close> (unbound as well), the two \<^verbatim>\<open>try\<close> blocks
  that catch \<^verbatim>\<open>LinAlgError\<close> and return \<^verbatim>\<open>None\<close>, and the return of the message.
\<close>

definition pnp_image_inner ::
  "warp \<Rightarrow> image_msg \<Rightarrow> image_msg \<Rightarrow> pose_estimation_context
     \<Rightarrow> py_error + image_msg option" where
  "pnp_image_inner warpAffine image_m orthoimage_m context =
     (let query_img = pixels image_m;
          orthoimage_stack = pixels orthoimage_m
      in if img_channels orthoimage_stack \<noteq> 3 then Inl AssertionError
         else
           let yaw = extract_yaw (orientation (ctx_camera_geopose context));
               crop_shape = (img_height query_img, img_width query_img)
           in case rotate_and_crop_image warpAffine orthoimage_stack yaw crop_shape of
                Inl e \<Rightarrow> Inl e
              | Inr (aligned_stack, affine) \<Rightarrow> Inl NameError)"

text \<open>\<^verbatim>\<open>TransformNode._pose_estimation_context\<close> and \<^verbatim>\<open>TransformNode.pnp_image\<close>.\<close>

definition pose_estimation_context_of :: "transform_node \<Rightarrow> pose_estimation_context option" where
  "pose_estimation_context_of node =
     (case (orthoimage node, camera_geopose node) of
        (Some om, Some g) \<Rightarrow> Some \<lparr>ctx_orthoimage = om, ctx_camera_geopose = g\<rparr>
      | _ \<Rightarrow> None)"

definition pnp_image :: "warp \<Rightarrow> transform_node \<Rightarrow> py_error + image_msg option" where
  "pnp_image warpAffine node =
     (case narrow_types3 (pnp_image_inner warpAffine)
             (image_in node) (orthoimage node) (pose_estimation_context_of node) of
        Inl e \<Rightarrow> Inl e
      | Inr None \<Rightarrow> Inr None
      | Inr (Some r) \<Rightarrow> Inr r)"

text \<open>
  \<^verbatim>\<open>TransformNode._post_process_pose\<close>, called with a pose (rotation and translation),
  the intermediate outputs and a context. Its first statement builds the altitude
  message and evaluates \<^verbatim>\<open>context.ground_track_elevation.header\<close> first; the context
  has no field \<^verbatim>\<open>ground_track_elevation\<close>, so the read raises \<^verbatim>\<open>AttributeError\<close>.
  Were the field there, the next argument reads \<^verbatim>\<open>alt\<close>, which nothing binds
  (\<^verbatim>\<open>NameError\<close>). The \<^verbatim>\<open>try\<close> block that inverts the 3 by 3 block of the affine
  transform and returns \<^verbatim>\<open>None\<close> on \<^verbatim>\<open>LinAlgError\<close> comes after and is never
  reached.
\<close>

definition post_process_pose ::
  "matrix \<times> matrix \<Rightarrow> pose_estimation_intermediate_outputs \<Rightarrow> pose_estimation_context
     \<Rightarrow> py_error + (geopoint \<times> altitude_msg \<times> quaternion) option" where
  "post_process_pose pose_in outs context =
     (case context_getattr context ''ground_track_elevation'' of
        Inl e \<Rightarrow> Inl e
      | Inr ground_track_elevation \<Rightarrow> Inl NameError)"

text \<open>
  Example inputs: a message with a blank raster, a context, a pose with the identity
  rotation and the camera 100 units above the origin, and intermediate outputs whose
  affine transform has a singular (zero) rotation block.
\<close>

definition example_image :: "nat \<Rightarrow> nat \<Rightarrow> image_msg" where
  "example_image h w = \<lparr>stamp = 7, frame_id = [], pixels = blank_raster h w\<rparr>"

definition example_context :: pose_estimation_context where
  "example_context =
     \<lparr>ctx_orthoimage = example_image 10 20, ctx_camera_geopose = nadir_geopose\<rparr>"

definition example_pose :: "matrix \<times> matrix" where
  "example_pose = ([[1, 0, 0], [0, 1, 0], [0, 0, 1]], [[0], [0], [-100]])"

definition singular_outputs :: pose_estimation_intermediate_outputs where
  "singular_outputs =
     \<lparr>affine_transform = [[0, 0, 0, 0], [0, 0, 0, 0], [0, 0, 1, 0], [0, 0, 0, 1]],
      camera_yaw_degrees = 0\<rparr>"

section \<open>Position smoother\<close>

text \<open>
  \<^verbatim>\<open>SimpleFilter\<close> of \<^verbatim>\<open>kalman.py\<close>. One measurement is an array of shape (1, 3), a
  single row (\<^verbatim>\<open>_init_initial_state\<close> reads \<^verbatim>\<open>measurements[0][0]\<close>, and
  \<^verbatim>\<open>filter_update\<close> is handed \<^verbatim>\<open>measurement.squeeze()\<close>); the buffer
  \<^verbatim>\<open>self._measurements\<close> is the list of the rows stacked so far.
\<close>

type_synonym measurement = "real \<times> real \<times> real"

text \<open>
  The class \<^verbatim>\<open>KalmanFilter\<close> of the library pykalman is a parameter of the model: the
  constructor (transition matrix, observation matrix, initial state mean), the
  parameter-learning pass \<^verbatim>\<open>em\<close> with its iteration count, the batch pass
  \<^verbatim>\<open>filter\<close> that yields the means and the covariances, and the online step
  \<^verbatim>\<open>filter_update\<close>.
\<close>

record 'kf pykalman =
  KalmanFilter :: "matrix \<Rightarrow> matrix \<Rightarrow> real list option \<Rightarrow> 'kf"
  kf_em :: "'kf \<Rightarrow> measurement list \<Rightarrow> nat \<Rightarrow> 'kf"
  kf_filter :: "'kf \<Rightarrow> measurement list \<Rightarrow> real list list \<times> matrix list"
  filter_update :: "'kf \<Rightarrow> real list \<Rightarrow> matrix \<Rightarrow> measurement \<Rightarrow> real list \<times> matrix"

record 'kf simple_filter =
  measurements :: "measurement list option"
  initial_state_mean :: "real list option"
  transition_matrix :: matrix
  observation_matrix :: matrix
  kf :: "'kf option"
  window_length :: int
  previous_mean :: "real list option"
  previous_covariance :: "matrix option"

text \<open>\<^verbatim>\<open>SimpleFilter.__init__\<close>; the default window length is 20.\<close>

definition SimpleFilter :: "int \<Rightarrow> 'kf simple_filter" where
  "SimpleFilter w =
     \<lparr>measurements = None,
      initial_state_mean = None,
      transition_matrix =
        [[1, 1, 0, 0, 0, 0],
         [0, 1, 0, 0, 0, 0],
         [0, 0, 1, 1, 0, 0],
         [0, 0, 0, 1, 0, 0],
         [0, 0, 0, 0, 1, 1],
         [0, 0, 0, 0, 0, 1]],
      observation_matrix =
        [[1, 0, 0, 0, 0, 0],
         [0, 0, 1, 0, 0, 0],
         [0, 0, 0, 0, 1, 0]],
      kf = None,
      window_length = w,
      previous_mean = None,
      previous_covariance = None\<rparr>"

text \<open>\<^verbatim>\<open>SimpleFilter._init_initial_state\<close>, called with the first measurement.\<close>

definition init_initial_state ::
  "'kf simple_filter \<Rightarrow> measurement \<Rightarrow> 'kf simple_filter" where
  "init_initial_state s m =
     (case m of (x, y, z) \<Rightarrow>
        s\<lparr>measurements := Some [m],
          initial_state_mean := Some [x, 0, y, 0, z, 0]\<rparr>)"

text \<open>The slice \<^verbatim>\<open>v[0::2]\<close> and \<^verbatim>\<open>np.diagonal\<close>.\<close>

fun every_other :: "'a list \<Rightarrow> 'a list" where
  "every_other [] = []"
| "every_other [x] = [x]"
| "every_other (x # y # xs) = x # every_other xs"

definition np_diagonal :: "matrix \<Rightarrow> real list" where
  "np_diagonal m = map (\<lambda>i. m ! i ! i) [0..<min (fst (np_shape m)) (snd (np_shape m))]"

text \<open>
  \<^verbatim>\<open>SimpleFilter.update\<close>. The result is the new state of the object and the value
  returned: \<^verbatim>\<open>None\<close>, or the pair of the filtered position and its standard
  deviations. The three branches are those of the source: no buffer yet, a buffer
  shorter than the window, and otherwise the batch pass (no filter yet) or the online
  step. The square root is taken of the diagonal entries as reals.
\<close>

definition update ::
  "'kf pykalman \<Rightarrow> 'kf simple_filter \<Rightarrow> measurement
     \<Rightarrow> py_error + 'kf simple_filter \<times> (real list \<times> real list) option" where
  "update lib s measurement =
     (case measurements s of
        None \<Rightarrow> Inr (init_initial_state s measurement, None)
      | Some ms \<Rightarrow>
          if int (length ms) < window_length s
          then Inr (s\<lparr>measurements := Some (ms @ [measurement])\<rparr>, None)
          else if \<not> 0 < length ms then Inl AssertionError
          else
            case
              (case kf s of
                 None \<Rightarrow>
                   (let k = KalmanFilter lib (transition_matrix s) (observation_matrix s)
                              (initial_state_mean s);
                        k = kf_em lib k ms 20;
                        means = fst (kf_filter lib k ms);
                        covariances = snd (kf_filter lib k ms)
                    in if means = [] \<or> covariances = [] then Inl IndexError
                       else Inr (s\<lparr>kf := Some k\<rparr>, last means, last covariances))
               | Some k \<Rightarrow>
                   (case previous_mean s of
                      None \<Rightarrow> Inl AssertionError
                    | Some pm \<Rightarrow>
                        (case previous_covariance s of
                           None \<Rightarrow> Inl AssertionError
                         | Some pc \<Rightarrow>
                             Inr (s, fst (filter_update lib k pm pc measurement),
                                  snd (filter_update lib k pm pc measurement)))))
            of
              Inl e \<Rightarrow> Inl e
            | Inr (s1, mean, covariance) \<Rightarrow>
                (let s2 = s1\<lparr>previous_mean := Some mean,
                             previous_covariance := Some covariance\<rparr>;
                     xyz_mean = every_other mean;
                     xyz_sd = map sqrt (every_other (np_diagonal covariance))
                 in if length xyz_mean \<noteq> 3 then Inl AssertionError
                    else if length xyz_sd \<noteq> 3 then Inl AssertionError
                    else Inr (s2, Some (xyz_mean, xyz_sd))))"

text \<open>
  A sequence of measurements fed one per call: the final state and the value returned
  by each call, in order. An exception ends the run.
\<close>

fun feed ::
  "'kf pykalman \<Rightarrow> 'kf simple_filter \<Rightarrow> measurement list
     \<Rightarrow> py_error + 'kf simple_filter \<times> (real list \<times> real list) option list" where
  "feed lib s [] = Inr (s, [])"
| "feed lib s (m # ms) =
     (case update lib s m of
        Inl e \<Rightarrow> Inl e
      | Inr (s1, out) \<Rightarrow>
          (case feed lib s1 ms of
             Inl e \<Rightarrow> Inl e
           | Inr (s2, outs) \<Rightarrow> Inr (s2, out # outs)))"

definition outputs ::
  "'kf pykalman \<Rightarrow> 'kf simple_filter \<Rightarrow> measurement list
     \<Rightarrow> py_error + (real list \<times> real list) option list" where
  "outputs lib s ms = (case feed lib s ms of Inl e \<Rightarrow> Inl e | Inr (s1, outs) \<Rightarrow> Inr outs)"

text \<open>
  The shapes that pykalman returns for a six-dimensional state: a mean of length 6 and
  a 6 by 6 covariance, one pair for each measurement of a batch of at least two
  measurements. On a batch of one measurement the parameter-learning pass of pykalman
  raises, so nothing is said of the library there.
\<close>

definition state_shape :: "real list \<Rightarrow> matrix \<Rightarrow> bool" where
  "state_shape mean covariance = (length mean = 6 \<and> np_shape covariance = (6, 6))"

definition pykalman_shapes :: "'kf pykalman \<Rightarrow> bool" where
  "pykalman_shapes lib =
     ((\<forall>k ms. 2 \<le> length ms \<longrightarrow>
               length (fst (kf_filter lib k ms)) = length ms
             \<and> length (snd (kf_filter lib k ms)) = length ms
             \<and> state_shape (last (fst (kf_filter lib k ms)))
                            (last (snd (kf_filter lib k ms))))
      \<and> (\<forall>k pm pc z. state_shape (fst (filter_update lib k pm pc z))
                                 (snd (filter_update lib k pm pc z))))"

text \<open>
  The state of the smoother once the filter is fitted: the buffer is not shorter than
  the window, and the filter, the previous mean and the previous covariance are set.
\<close>

definition primed :: "'kf simple_filter \<Rightarrow> bool" where
  "primed s =
     (\<exists>buf k pm pc. measurements s = Some buf \<and> buf \<noteq> []
        \<and> \<not> int (length buf) < window_length s
        \<and> kf s = Some k \<and> previous_mean s = Some pm \<and> previous_covariance s = Some pc)"

text \<open>
  Example input: a stand-in for pykalman whose filtered mean is the latest measurement
  at rest and whose covariance is the identity. It stands for the library on batches
  of at least two measurements only.
\<close>

definition at_rest :: "measurement \<Rightarrow> real list" where
  "at_rest m = (case m of (x, y, z) \<Rightarrow> [x, 0, y, 0, z, 0])"

definition identity_6 :: matrix where
  "identity_6 =
     [[1, 0, 0, 0, 0, 0],
      [0, 1, 0, 0, 0, 0],
      [0, 0, 1, 0, 0, 0],
      [0, 0, 0, 1, 0, 0],
      [0, 0, 0, 0, 1, 0],
      [0, 0, 0, 0, 0, 1]]"

definition echo_kalman :: "unit pykalman" where
  "echo_kalman =
     \<lparr>KalmanFilter = (\<lambda>f h m0. ()),
      kf_em = (\<lambda>k ms n. k),
      kf_filter = (\<lambda>k ms. (map at_rest ms, map (\<lambda>m. identity_6) ms)),
      filter_update = (\<lambda>k pm pc z. (at_rest z, identity_6))\<rparr>"

section \<open>Properties\<close>

subsection \<open>Yaw\<close>

lemma py_fmod_range:
  assumes "0 < b"
  shows "0 \<le> py_fmod a b \<and> py_fmod a b < b"
proof -
  have lo: "of_int \<lfloor>a / b\<rfloor> \<le> a / b" by (rule of_int_floor_le)
  have hi: "a / b < of_int \<lfloor>a / b\<rfloor> + 1" by linarith
  have eq: "b * (a / b) = a" using assms by simp
  from lo assms have "b * of_int \<lfloor>a / b\<rfloor> \<le> b * (a / b)"
    by (intro mult_left_mono) simp_all
  then have l: "b * of_int \<lfloor>a / b\<rfloor> \<le> a" unfolding eq .
  from hi assms have "b * (a / b) < b * (of_int \<lfloor>a / b\<rfloor> + 1)"
    by (intro mult_strict_left_mono) simp_all
  then have u: "a < b * (of_int \<lfloor>a / b\<rfloor> + 1)" unfolding eq .
  from l u show ?thesis
    by (simp add: py_fmod_def algebra_simps)
qed

text \<open>
  C10: for every quaternion, the heading that \<open>extract_yaw\<close> returns lies in the
  half-open interval from 0 to 360 degrees.
\<close>

theorem extract_yaw_range:
  "0 \<le> extract_yaw q \<and> extract_yaw q < 360"
  unfolding extract_yaw_def Let_def
  by (rule py_fmod_range) simp

subsection \<open>Rounding of doubles\<close>



















subsection \<open>UTM zone\<close>

















subsection \<open>Admission gate\<close>

lemma off_nadir_pitch_unit:
  assumes "2 * (qw q * qy q - qx q * qz q) = 1"
  shows "off_nadir_pitch q = Flt 0"
  using assms by (simp add: off_nadir_pitch_def np_arcsin_def flt_map_def np_degrees_def)

lemma off_nadir_pitch_nadir: "off_nadir_pitch nadir_quaternion = Flt 0"
  by (rule off_nadir_pitch_unit) (simp add: nadir_quaternion_def)

lemma nadir_not_too_high:
  "0 \<le> limit \<Longrightarrow> \<not> camera_roll_or_pitch_too_high (node_at agl) limit"
  by (simp add: camera_roll_or_pitch_too_high_def node_at_def nadir_geopose_def
      off_nadir_pitch_nadir flt_gt_def)

text \<open>
  C4, as amended: with the other admission conditions satisfied and a positive threshold
  \<open>m\<close>, the gate rejects exactly when the altitude above ground is strictly below
  \<open>m\<close>; at exactly \<open>m\<close>, and above it, the gate accepts.
\<close>

theorem should_estimate_altitude_threshold:
  assumes "altitude node = Some alt" and "terrain alt = Flt a"
    and "max_pitch node = Some mp" and "min_match_altitude node = Some m"
    and "0 < m"
    and "\<not> camera_roll_or_pitch_too_high node (of_int mp)"
  shows "should_estimate_geopose node = Inr (of_int m \<le> a)"
  using assms
  by (auto simp add: should_estimate_geopose_def narrow_types3_def should_estimate_def
      is_np_nan_def flt_lt_def py_bool_def)

theorem should_estimate_altitude_threshold_witness:
  "should_estimate_geopose (node_at (Flt 100)) = Inr True
   \<and> should_estimate_geopose (node_at (Flt 79)) = Inr False"
  using should_estimate_altitude_threshold [of "node_at (Flt 100)" _ 100 30 80]
    should_estimate_altitude_threshold [of "node_at (Flt 79)" _ 79 30 80]
    nadir_not_too_high [of 30]
  by (simp add: node_at_def)

text \<open>
  C4 as stated fails: at an altitude equal to the threshold (80) the gate accepts.
\<close>

theorem should_estimate_at_threshold_accepts:
  "should_estimate_geopose (node_at (Flt 80)) = Inr True"
proof -
  have "\<not> camera_roll_or_pitch_too_high (node_at (Flt 80)) (of_int 30)"
    by (rule nadir_not_too_high) simp
  then show ?thesis
    by (simp add: should_estimate_geopose_def narrow_types3_def should_estimate_def
        is_np_nan_def flt_lt_def py_bool_def node_at_def)
qed

text \<open>
  C5: a not-a-number altitude that is not the object \<^verbatim>\<open>np.nan\<close> itself passes both the
  identity test and the comparison, and the gate accepts; only the object \<^verbatim>\<open>np.nan\<close>
  is rejected.
\<close>

theorem should_estimate_other_nan_accepts:
  "isnan OtherNaN
   \<and> should_estimate_geopose (node_at OtherNaN) = Inr True
   \<and> should_estimate_geopose (node_at NumpyNaN) = Inr False"
proof -
  have "\<not> camera_roll_or_pitch_too_high (node_at v) (of_int 30)" for v
    by (rule nadir_not_too_high) simp
  then show ?thesis
    by (simp add: should_estimate_geopose_def narrow_types3_def should_estimate_def
        is_np_nan_def flt_lt_def py_bool_def node_at_def isnan_def)
qed

text \<open>
  The formula and the fail-safe: the off-nadir pitch is 90 degrees minus the arcsine of
  \<open>2 (w y - x z)\<close> in degrees (not-a-number where the arcsine is); where
  \<open>2 (w y - x z)\<close> is exactly 1 it is 0; and with no camera orientation the pitch check
  answers "too high" and the gate rejects.
\<close>

lemma off_nadir_pitch_formula:
  "off_nadir_pitch q =
     flt_map (\<lambda>a. 90 - np_degrees a) (np_arcsin (2 * (qw q * qy q - qx q * qz q)))
   \<and> (2 * (qw q * qy q - qx q * qz q) = 1 \<longrightarrow> off_nadir_pitch q = Flt 0)
   \<and> off_nadir_pitch nadir_quaternion = Flt 0
   \<and> (camera_geopose node = None \<longrightarrow>
        camera_roll_or_pitch_too_high node limit
        \<and> should_estimate_geopose node = Inr False)"
proof (intro conjI impI)
  show "off_nadir_pitch q =
     flt_map (\<lambda>a. 90 - np_degrees a) (np_arcsin (2 * (qw q * qy q - qx q * qz q)))"
    by (simp add: off_nadir_pitch_def np_arcsin_def flt_map_def np_degrees_def
        field_simps)
next
  assume "2 * (qw q * qy q - qx q * qz q) = 1"
  then show "off_nadir_pitch q = Flt 0" by (rule off_nadir_pitch_unit)
next
  show "off_nadir_pitch nadir_quaternion = Flt 0" by (rule off_nadir_pitch_nadir)
next
  assume none: "camera_geopose node = None"
  then show "camera_roll_or_pitch_too_high node limit"
    by (simp add: camera_roll_or_pitch_too_high_def)
next
  assume none: "camera_geopose node = None"
  then have high: "camera_roll_or_pitch_too_high node l" for l
    by (simp add: camera_roll_or_pitch_too_high_def)
  show "should_estimate_geopose node = Inr False"
    by (simp add: should_estimate_geopose_def narrow_types3_def should_estimate_def
        high py_bool_def split: option.splits)
qed

text \<open>
  C7: at the quaternion of exact nadir pointing in doubles the product
  \<open>2 (w y - x z)\<close> exceeds 1 (in double arithmetic it is 1 plus 2 to the power -52),
  the arcsine is not-a-number and so is the off-nadir pitch, where the claim says 0
  within tolerance; the comparison with the limit is then false and the pitch check
  passes.
\<close>

theorem off_nadir_pitch_double_nadir:
  "1 < 2 * (qw double_nadir_quaternion * qy double_nadir_quaternion
            - qx double_nadir_quaternion * qz double_nadir_quaternion)
   \<and> off_nadir_pitch double_nadir_quaternion = OtherNaN
   \<and> isnan (off_nadir_pitch double_nadir_quaternion)
   \<and> \<not> camera_roll_or_pitch_too_high
        ((node_at (Flt 100))
           \<lparr>camera_geopose :=
              Some (nadir_geopose\<lparr>orientation := double_nadir_quaternion\<rparr>)\<rparr>)
        30"
  by (simp add: off_nadir_pitch_def np_arcsin_def flt_map_def double_nadir_quaternion_def
      isnan_def camera_roll_or_pitch_too_high_def node_at_def flt_gt_def)

subsection \<open>Image aligner\<close>

lemma upt_3: "[0..<3] = [0, 1, 2]"
  by (simp add: upt_rec numeral_nat)

lemma upt_4: "[0..<4] = [0, 1, 2, 3]"
  by (simp add: upt_rec numeral_nat)

lemma np_eye_4: "np_eye 4 = [[1, 0, 0, 0], [0, 1, 0, 0], [0, 0, 1, 0], [0, 0, 0, 1]]"
  by (simp add: np_eye_def upt_4)

lemmas aligner_defs =
  get_rotation_matrix_def getRotationMatrix2D_def get_translation_matrix_def
  np_shape_def np_dot_def np_eye_4 assign_block_2x2_def assign_column_2_def mat_set_def
  column_def upt_3 Let_def

lemma affine_3d_composed_value:
  fixes img :: raster and degrees :: real and ch cw :: int
  defines "r \<equiv> get_rotation_matrix img degrees"
    and "dx \<equiv> real_of_int ((img_height img - ch) div 2)"
    and "dy \<equiv> real_of_int ((img_width img - cw) div 2)"
  shows "affine_3d_composed img degrees ch cw =
           Inr (r, [[1, 0, dx], [0, 1, dy]],
                [[r ! 0 ! 0, r ! 0 ! 1, 0, r ! 0 ! 2 + dx],
                 [r ! 1 ! 0, r ! 1 ! 1, 0, r ! 1 ! 2 + dy],
                 [0, 0, 1, 0],
                 [0, 0, 0, 1]])"
  unfolding r_def dx_def dy_def
  by (simp add: affine_3d_composed_def aligner_defs)

lemma get_affine_matrix_value:
  fixes img :: raster and degrees :: real and ch cw :: int
  defines "r \<equiv> get_rotation_matrix img degrees"
    and "dx \<equiv> real_of_int ((img_height img - ch) div 2)"
    and "dy \<equiv> real_of_int ((img_width img - cw) div 2)"
  shows "get_affine_matrix img degrees ch cw =
           Inr [[r ! 0 ! 0, r ! 0 ! 1, 0, r ! 0 ! 2 - dy],
                [r ! 1 ! 0, r ! 1 ! 1, 0, r ! 1 ! 2 - dx],
                [0, 0, 1, 0],
                [0, 0, 0, 1]]"
  unfolding r_def dx_def dy_def
  by (simp add: get_affine_matrix_def affine_3d_composed_def aligner_defs)

lemma rotate_and_crop_image_value:
  fixes img :: raster and degrees :: real and ch cw :: int
  defines "r \<equiv> get_rotation_matrix img degrees"
    and "dx \<equiv> real_of_int ((img_height img - ch) div 2)"
    and "dy \<equiv> real_of_int ((img_width img - cw) div 2)"
  shows "rotate_and_crop_image warpAffine img degrees (ch, cw) =
           (case warpAffine img [[r ! 0 ! 0, r ! 0 ! 1, r ! 0 ! 2 - dy],
                                 [r ! 1 ! 0, r ! 1 ! 1, r ! 1 ! 2 - dx]] (cw, ch) of
              Inl e \<Rightarrow> Inl e
            | Inr warped \<Rightarrow>
                Inr (warped,
                     [[r ! 0 ! 0, r ! 0 ! 1, 0, r ! 0 ! 2 - dy],
                      [r ! 1 ! 0, r ! 1 ! 1, 0, r ! 1 ! 2 - dx],
                      [0, 0, 1, 0],
                      [0, 0, 0, 1]]))"
  unfolding r_def dx_def dy_def
  by (simp add: rotate_and_crop_image_def get_affine_matrix_value np_delete_column_def
      split: sum.splits)

lemma rotation_zero_degrees:
  "get_rotation_matrix img 0 = [[1, 0, 0], [0, 1, 0]]"
  by (simp add: get_rotation_matrix_def getRotationMatrix2D_def Let_def)

lemma blank_raster_shape:
  "0 < w \<Longrightarrow> img_height (blank_raster h w) = int h"
  "0 < h \<Longrightarrow> img_width (blank_raster h w) = int w"
  by (cases h; simp add: img_height_def img_width_def np_shape_def blank_raster_def)+

text \<open>
  C2, as amended: the transform that the aligner returns is the 4 by 4 matrix that
  carries the translation of the warp call (the translation of the rotation minus the
  crop offsets, axes swapped); its rows 0 and 1 without the third column are the 2 by 3
  matrix handed to the warp. The composition of the rotation with the crop translation
  is computed on the way and overwritten.
\<close>

theorem rotate_and_crop_image_transform:
  fixes img :: raster and degrees :: real and ch cw :: int
  defines "r \<equiv> get_rotation_matrix img degrees"
    and "dx \<equiv> real_of_int ((img_height img - ch) div 2)"
    and "dy \<equiv> real_of_int ((img_width img - cw) div 2)"
  assumes "rotate_and_crop_image warpAffine img degrees (ch, cw) = Inr (warped, affine)"
  shows "affine = [[r ! 0 ! 0, r ! 0 ! 1, 0, r ! 0 ! 2 - dy],
                   [r ! 1 ! 0, r ! 1 ! 1, 0, r ! 1 ! 2 - dx],
                   [0, 0, 1, 0],
                   [0, 0, 0, 1]]
       \<and> warpAffine img [[r ! 0 ! 0, r ! 0 ! 1, r ! 0 ! 2 - dy],
                         [r ! 1 ! 0, r ! 1 ! 1, r ! 1 ! 2 - dx]] (cw, ch) = Inr warped
       \<and> affine_3d_composed img degrees ch cw =
           Inr (r, [[1, 0, dx], [0, 1, dy]],
                [[r ! 0 ! 0, r ! 0 ! 1, 0, r ! 0 ! 2 + dx],
                 [r ! 1 ! 0, r ! 1 ! 1, 0, r ! 1 ! 2 + dy],
                 [0, 0, 1, 0],
                 [0, 0, 0, 1]])"
  using assms(4) unfolding r_def dx_def dy_def
  by (simp add: rotate_and_crop_image_value affine_3d_composed_value split: sum.splits)

theorem rotate_and_crop_image_transform_witness:
  "rotate_and_crop_image blank_warp (blank_raster 10 20) 30 (4, 6)
     = Inr (blank_raster 4 6,
            [[cos (pi / 6), sin (pi / 6), 0, (1 - cos (pi / 6)) * 5 - sin (pi / 6) * 10 - 7],
             [- sin (pi / 6), cos (pi / 6), 0, sin (pi / 6) * 5 + (1 - cos (pi / 6)) * 10 - 3],
             [0, 0, 1, 0],
             [0, 0, 0, 1]])"
proof -
  obtain m where h: "rotate_and_crop_image blank_warp (blank_raster 10 20) 30 (4, 6)
      = Inr (blank_raster 4 6, m)"
    by (simp add: rotate_and_crop_image_value blank_warp_def)
  from rotate_and_crop_image_transform [OF h] show ?thesis
    unfolding h
    by (simp add: blank_raster_shape get_rotation_matrix_def getRotationMatrix2D_def Let_def)
qed

text \<open>
  C2 as stated fails: for a 10 by 20 raster, no rotation and a 4 by 6 crop, the
  composition of rotation and crop translation has the translation (3, 7), and the
  transform returned has the translation (-7, -3) of the warp call.
\<close>

theorem rotate_and_crop_image_returns_warp_translation:
  "rotate_and_crop_image blank_warp (blank_raster 10 20) 0 (4, 6)
     = Inr (blank_raster 4 6, [[1, 0, 0, -7], [0, 1, 0, -3], [0, 0, 1, 0], [0, 0, 0, 1]])
   \<and> affine_3d_composed (blank_raster 10 20) 0 4 6
     = Inr ([[1, 0, 0], [0, 1, 0]], [[1, 0, 3], [0, 1, 7]],
            [[1, 0, 0, 3], [0, 1, 0, 7], [0, 0, 1, 0], [0, 0, 0, 1]])"
  by (simp add: rotate_and_crop_image_value affine_3d_composed_value blank_warp_def
      blank_raster_shape rotation_zero_degrees)

text \<open>
  C8, as amended: the aligner checks no size. For every crop size, also one that
  exceeds the raster, the offsets are the floor-divided halves of the differences
  (negative when the crop is larger), the affine matrix is built, and the result is
  the result of the warp call: its error when it fails, its raster with the transform
  when it succeeds.
\<close>

theorem rotate_and_crop_image_any_size:
  fixes img :: raster and degrees :: real and ch cw :: int
  defines "r \<equiv> get_rotation_matrix img degrees"
    and "dx \<equiv> real_of_int ((img_height img - ch) div 2)"
    and "dy \<equiv> real_of_int ((img_width img - cw) div 2)"
    and "m \<equiv> get_affine_matrix img degrees ch cw"
  shows "m = Inr [[r ! 0 ! 0, r ! 0 ! 1, 0, r ! 0 ! 2 - dy],
                  [r ! 1 ! 0, r ! 1 ! 1, 0, r ! 1 ! 2 - dx],
                  [0, 0, 1, 0],
                  [0, 0, 0, 1]]
       \<and> rotate_and_crop_image warpAffine img degrees (ch, cw) =
           (case warpAffine img [[r ! 0 ! 0, r ! 0 ! 1, r ! 0 ! 2 - dy],
                                 [r ! 1 ! 0, r ! 1 ! 1, r ! 1 ! 2 - dx]] (cw, ch) of
              Inl e \<Rightarrow> Inl e
            | Inr warped \<Rightarrow> Inr (warped, projr m))"
  unfolding r_def dx_def dy_def m_def
  by (simp add: rotate_and_crop_image_value get_affine_matrix_value split: sum.splits)

theorem rotate_and_crop_image_any_size_witness:
  "get_affine_matrix (blank_raster 4 4) 0 11 10
     = Inr [[1, 0, 0, 3], [0, 1, 0, 4], [0, 0, 1, 0], [0, 0, 0, 1]]"
  using rotate_and_crop_image_any_size [of "blank_raster 4 4" 0 11 10 blank_warp]
  by (simp add: blank_raster_shape rotation_zero_degrees)

text \<open>
  C8 as stated fails: a 10 by 10 crop of a 4 by 4 raster is not rejected; the offsets
  are -3 and the aligner returns the warped raster and a transform.
\<close>

theorem rotate_and_crop_image_oversize_accepted:
  "rotate_and_crop_image blank_warp (blank_raster 4 4) 0 (10, 10)
     = Inr (blank_raster 10 10, [[1, 0, 0, 3], [0, 1, 0, 3], [0, 0, 1, 0], [0, 0, 0, 1]])"
  by (simp add: rotate_and_crop_image_value blank_warp_def blank_raster_shape
      rotation_zero_degrees)

subsection \<open>Position smoother\<close>

lemma length_every_other: "length (every_other xs) = (length xs + 1) div 2"
  by (induction xs rule: every_other.induct) simp_all

lemma state_shape_lengths:
  assumes "state_shape mean covariance"
  shows "length (every_other mean) = 3"
    and "length (map sqrt (every_other (np_diagonal covariance))) = 3"
  using assms by (simp_all add: state_shape_def length_every_other np_diagonal_def)

lemma update_first:
  "measurements s = None \<Longrightarrow> update lib s m = Inr (init_initial_state s m, None)"
  by (simp add: update_def)

lemma update_buffering:
  "measurements s = Some buf \<Longrightarrow> int (length buf) < window_length s \<Longrightarrow>
     update lib s m = Inr (s\<lparr>measurements := Some (buf @ [m])\<rparr>, None)"
  by (simp add: update_def)

lemma feed_buffering:
  "measurements s = Some buf \<Longrightarrow> int (length buf + length ms) \<le> window_length s \<Longrightarrow>
     feed lib s ms = Inr (s\<lparr>measurements := Some (buf @ ms)\<rparr>, replicate (length ms) None)"
proof (induction ms arbitrary: s buf)
  case Nil
  then show ?case by simp
next
  case (Cons m ms)
  let ?s1 = "s\<lparr>measurements := Some (buf @ [m])\<rparr>"
  from Cons.prems have step: "update lib s m = Inr (?s1, None)"
    by (intro update_buffering) simp_all
  have "feed lib ?s1 ms =
          Inr (?s1\<lparr>measurements := Some ((buf @ [m]) @ ms)\<rparr>, replicate (length ms) None)"
    using Cons.prems by (intro Cons.IH) simp_all
  with step show ?case by simp
qed

lemma feed_append:
  "feed lib s (xs @ ys) =
     (case feed lib s xs of
        Inl e \<Rightarrow> Inl e
      | Inr (s1, o1) \<Rightarrow>
          (case feed lib s1 ys of
             Inl e \<Rightarrow> Inl e
           | Inr (s2, o2) \<Rightarrow> Inr (s2, o1 @ o2)))"
  by (induction xs arbitrary: s) (auto split: sum.splits)

lemma update_priming:
  assumes "measurements s = Some buf" and "2 \<le> length buf"
    and "\<not> int (length buf) < window_length s" and "kf s = None"
    and "pykalman_shapes lib"
  shows "\<exists>s1 est. update lib s m = Inr (s1, Some est) \<and> primed s1"
proof -
  let ?k = "kf_em lib (KalmanFilter lib (transition_matrix s) (observation_matrix s)
                        (initial_state_mean s)) buf 20"
  let ?means = "fst (kf_filter lib ?k buf)" and ?covs = "snd (kf_filter lib ?k buf)"
  from assms(5) have len: "length ?means = length buf" "length ?covs = length buf"
    and shape: "state_shape (last ?means) (last ?covs)"
    using assms(2) unfolding pykalman_shapes_def by blast+
  from len assms(2) have ne: "?means \<noteq> []" "?covs \<noteq> []" by auto
  from assms(2) have buf: "buf \<noteq> []" by auto
  show ?thesis
    using assms(1,3,4) buf ne state_shape_lengths [OF shape]
    by (simp add: update_def Let_def primed_def)
qed

lemma update_primed:
  assumes "primed s" and "pykalman_shapes lib"
  shows "\<exists>s1 est. update lib s m = Inr (s1, Some est) \<and> primed s1"
proof -
  from assms(1) obtain buf k pm pc where s: "measurements s = Some buf" "buf \<noteq> []"
      "\<not> int (length buf) < window_length s" "kf s = Some k"
      "previous_mean s = Some pm" "previous_covariance s = Some pc"
    unfolding primed_def by blast
  from assms(2) have shape: "state_shape (fst (filter_update lib k pm pc m))
      (snd (filter_update lib k pm pc m))"
    unfolding pykalman_shapes_def by blast
  show ?thesis
    using s state_shape_lengths [OF shape]
    by (simp add: update_def Let_def primed_def case_prod_beta)
qed

lemma feed_primed:
  assumes "pykalman_shapes lib"
  shows "primed s \<Longrightarrow>
    \<exists>s1 ests. feed lib s ms = Inr (s1, map Some ests) \<and> length ests = length ms"
proof (induction ms arbitrary: s)
  case Nil
  then show ?case by simp
next
  case (Cons m ms)
  from update_primed [OF Cons.prems assms, of m]
  obtain s1 est where u: "update lib s m = Inr (s1, Some est)" and p: "primed s1"
    by blast
  from Cons.IH [OF p] obtain s2 ests
    where f: "feed lib s1 ms = Inr (s2, map Some ests)" and l: "length ests = length ms"
    by blast
  have "feed lib s (m # ms) = Inr (s2, map Some (est # ests))"
    using u f by simp
  moreover have "length (est # ests) = length (m # ms)" using l by simp
  ultimately show ?case by blast
qed

text \<open>
  C1, as amended: for a window length \<open>w\<close> of at least 2 and every sequence of
  measurements fed one per call to a new smoother, the first \<open>w\<close> calls return no
  output and every later call, the first of them call \<open>w + 1\<close>, returns an
  estimate; pykalman is taken to return a mean of length 6 and a 6 by 6 covariance for
  each measurement of a batch of at least two. With window length 1 the filter would
  be fitted to a single measurement, where pykalman raises; the statement leaves that
  case out.
\<close>

theorem feed_window:
  assumes "2 \<le> w" and "pykalman_shapes lib"
  shows "\<exists>s ests. feed lib (SimpleFilter w) ms =
           Inr (s, replicate (min (length ms) (nat w)) None @ map Some ests)
         \<and> length ests = length ms - nat w"
proof (cases ms)
  case Nil
  then show ?thesis by simp
next
  case (Cons m rest)
  define n where "n = nat w - 1"
  let ?s0 = "SimpleFilter w :: 'a simple_filter"
  let ?s1 = "init_initial_state ?s0 m"
  let ?a = "take n rest" and ?b = "drop n rest"
  let ?s2 = "?s1\<lparr>measurements := Some ([m] @ ?a)\<rparr>"
  have first: "update lib ?s0 m = Inr (?s1, None)"
    by (rule update_first) (simp add: SimpleFilter_def)
  have s1: "measurements ?s1 = Some [m]" "window_length ?s1 = w" "kf ?s1 = None"
    by (simp_all add: init_initial_state_def SimpleFilter_def split: prod.splits)
  have buffering: "feed lib ?s1 ?a = Inr (?s2, replicate (length ?a) None)"
    using s1 assms(1) by (intro feed_buffering) (simp_all add: n_def)
  have s2: "measurements ?s2 = Some ([m] @ ?a)" "window_length ?s2 = w" "kf ?s2 = None"
    using s1 by simp_all
  show ?thesis
  proof (cases ?b)
    case Nil
    then have short: "length rest \<le> n" by simp
    then have "feed lib ?s1 rest = Inr (?s2, replicate (length rest) None)"
      using buffering by simp
    with first have "feed lib ?s0 ms = Inr (?s2, replicate (length ms) None @ map Some [])"
      by (simp add: Cons replicate_append_same)
    moreover from short assms(1) have "min (length ms) (nat w) = length ms"
      by (simp add: Cons n_def)
    moreover from short assms(1) have "length ([] :: (real list \<times> real list) list) = length ms - nat w"
      by (simp add: Cons n_def)
    ultimately show ?thesis by metis
  next
    case (Cons m' rest')
    then have long: "n < length rest" by (cases "n < length rest") simp_all
    then have la: "length ?a = n" by simp
    have "\<exists>s3 est. update lib ?s2 m' = Inr (s3, Some est) \<and> primed s3"
      using s2 assms la by (intro update_priming [where buf = "[m] @ ?a"]) (simp_all add: n_def)
    then obtain s3 est where pr: "update lib ?s2 m' = Inr (s3, Some est)" and p3: "primed s3"
      by blast
    from feed_primed [OF assms(2) p3, of rest'] obtain s4 ests
      where f4: "feed lib s3 rest' = Inr (s4, map Some ests)" and l4: "length ests = length rest'"
      by blast
    have "feed lib ?s1 (?a @ ?b) = Inr (s4, replicate n None @ map Some (est # ests))"
      unfolding feed_append using buffering pr f4 la by (simp add: Cons)
    then have "feed lib ?s1 rest = Inr (s4, replicate n None @ map Some (est # ests))"
      by simp
    with first have "feed lib ?s0 ms = Inr (s4, replicate (Suc n) None @ map Some (est # ests))"
      by (simp add: \<open>ms = m # rest\<close>)
    moreover from assms(1) have "Suc n = nat w" by (simp add: n_def)
    moreover from long assms(1) have "min (length ms) (nat w) = nat w"
      by (simp add: \<open>ms = m # rest\<close> n_def)
    moreover have "length (est # ests) = length ms - nat w"
    proof -
      have "length ?b = length rest - n" by simp
      then have "Suc (length rest') = length rest - n" by (simp add: Cons)
      moreover have "length ms - nat w = length rest - n"
        using assms(1) by (simp add: \<open>ms = m # rest\<close> n_def)
      ultimately show ?thesis using l4 by simp
    qed
    ultimately show ?thesis by metis
  qed
qed

lemma upt_6: "[0..<6] = [0, 1, 2, 3, 4, 5]"
  by (simp add: upt_rec numeral_nat)

lemma echo_kalman_shapes: "pykalman_shapes echo_kalman"
proof -
  have ne: "ms \<noteq> []" if "2 \<le> length ms" for ms :: "measurement list"
    using that by auto
  show ?thesis
    by (auto simp add: pykalman_shapes_def echo_kalman_def state_shape_def last_map ne
        at_rest_def identity_6_def np_shape_def split: prod.splits)
qed

lemmas smoother_eval =
  update_def SimpleFilter_def init_initial_state_def echo_kalman_def at_rest_def
  identity_6_def np_diagonal_def np_shape_def upt_6 Let_def

theorem feed_window_witness:
  "(2 :: int) \<le> 2 \<and> pykalman_shapes echo_kalman
   \<and> outputs echo_kalman (SimpleFilter 2) [(1, 2, 3), (4, 5, 6), (7, 8, 9)]
       = Inr [None, None, Some ([4, 5, 6], [1, 1, 1])]"
proof -
  from feed_window [OF _ echo_kalman_shapes, of 2 "[(1, 2, 3), (4, 5, 6), (7, 8, 9)]"]
  obtain s ests where
    "feed echo_kalman (SimpleFilter 2) [(1, 2, 3), (4, 5, 6), (7, 8, 9)]
       = Inr (s, [None, None] @ map Some ests)" and "length ests = 1"
    by (auto simp add: numeral_2_eq_2)
  moreover have "outputs echo_kalman (SimpleFilter 2) [(1, 2, 3), (4, 5, 6), (7, 8, 9)]
       = Inr [None, None, Some ([4, 5, 6], [1, 1, 1])]"
    by (simp add: outputs_def smoother_eval)
  ultimately show ?thesis
    using echo_kalman_shapes by simp
qed

text \<open>
  C1 as stated fails: with window length 1 the first call returns no output, and with
  window length 2 neither does the second.
\<close>

theorem feed_window_call_returns_none:
  "outputs echo_kalman (SimpleFilter 1) [(1, 2, 3)] = Inr [None]
   \<and> outputs echo_kalman (SimpleFilter 2) [(1, 2, 3), (4, 5, 6)] = Inr [None, None]"
  by (simp add: outputs_def smoother_eval)

text \<open>
  C9: on the call that fits the filter (a buffer not shorter than the window, no filter
  yet), the result does not depend on the measurement passed: the buffer stays as it
  was, the filter is learnt from the buffer, and the mean and covariance stored and
  returned are the last of the batch pass over the buffer.
\<close>

theorem update_priming_ignores_measurement:
  assumes "measurements s = Some buf" and "\<not> int (length buf) < window_length s"
    and "kf s = None"
  shows "update lib s m = update lib s m'
       \<and> (\<forall>s1 out. update lib s m = Inr (s1, out) \<longrightarrow>
            measurements s1 = Some buf
            \<and> (\<exists>k mean covariance.
                 k = kf_em lib (KalmanFilter lib (transition_matrix s)
                                  (observation_matrix s) (initial_state_mean s)) buf 20
                 \<and> mean = last (fst (kf_filter lib k buf))
                 \<and> covariance = last (snd (kf_filter lib k buf))
                 \<and> s1 = s\<lparr>kf := Some k, previous_mean := Some mean,
                            previous_covariance := Some covariance\<rparr>
                 \<and> out = Some (every_other mean,
                               map sqrt (every_other (np_diagonal covariance)))))"
  using assms
  by (auto simp add: update_def Let_def split: if_splits)

theorem update_priming_ignores_measurement_witness:
  "update echo_kalman
     ((SimpleFilter 2)\<lparr>measurements := Some [(1, 2, 3), (4, 5, 6)],
                       initial_state_mean := Some [1, 0, 2, 0, 3, 0]\<rparr>) (7, 8, 9)
   = update echo_kalman
     ((SimpleFilter 2)\<lparr>measurements := Some [(1, 2, 3), (4, 5, 6)],
                       initial_state_mean := Some [1, 0, 2, 0, 3, 0]\<rparr>) (70, 80, 90)
   \<and> map_sum id snd (update echo_kalman
     ((SimpleFilter 2)\<lparr>measurements := Some [(1, 2, 3), (4, 5, 6)],
                       initial_state_mean := Some [1, 0, 2, 0, 3, 0]\<rparr>) (7, 8, 9))
   = Inr (Some ([4, 5, 6], [1, 1, 1]))"
proof -
  let ?s = "(SimpleFilter 2)\<lparr>measurements := Some [(1, 2, 3), (4, 5, 6)],
                       initial_state_mean := Some [1, 0, 2, 0, 3, 0]\<rparr> :: unit simple_filter"
  have "update echo_kalman ?s (7, 8, 9) = update echo_kalman ?s (70, 80, 90)"
    using update_priming_ignores_measurement
      [of ?s "[(1, 2, 3), (4, 5, 6)]" echo_kalman "(7, 8, 9)" "(70, 80, 90)"]
    by (simp add: SimpleFilter_def)
  moreover have "map_sum id snd (update echo_kalman ?s (7, 8, 9))
      = Inr (Some ([4, 5, 6], [1, 1, 1]))"
    by (simp add: smoother_eval)
  ultimately show ?thesis by simp
qed

subsection \<open>Geopose reconstruction\<close>

lemma blank_raster_channels: "0 < h \<Longrightarrow> 0 < w \<Longrightarrow> img_channels (blank_raster h w) = 3"
  by (cases h; cases w) (simp_all add: img_channels_def blank_raster_def)

lemma pnp_image_inner_raises: "pnp_image_inner warpAffine image_m orthoimage_m context \<noteq> Inr r"
  by (simp add: pnp_image_inner_def Let_def split: sum.splits prod.splits)

text \<open>
  C3: the code reaches no inversion. \<^verbatim>\<open>_post_process_pose\<close> raises
  \<^verbatim>\<open>AttributeError\<close> for every pose, intermediate outputs and context, also when the
  rotation block of the affine transform is singular, where the claim says it returns
  no result; \<^verbatim>\<open>_pnp_image\<close> never returns, neither \<^verbatim>\<open>None\<close> nor a message, and
  raises \<^verbatim>\<open>NameError\<close> once the aligner has run.
\<close>

theorem geopose_reconstruction_raises:
  "post_process_pose pose_in outs context = Inl AttributeError
   \<and> post_process_pose example_pose singular_outputs example_context = Inl AttributeError
   \<and> (\<forall>r. pnp_image_inner warpAffine image_m orthoimage_m context \<noteq> Inr r)
   \<and> pnp_image_inner blank_warp (example_image 4 6) (example_image 10 20) example_context
       = Inl NameError"
proof (intro conjI allI)
  show "post_process_pose pose_in outs context = Inl AttributeError"
    by (simp add: post_process_pose_def context_getattr_def)
  show "post_process_pose example_pose singular_outputs example_context = Inl AttributeError"
    by (simp add: post_process_pose_def context_getattr_def)
  show "pnp_image_inner warpAffine image_m orthoimage_m context \<noteq> Inr r" for r
    by (rule pnp_image_inner_raises)
  show "pnp_image_inner blank_warp (example_image 4 6) (example_image 10 20) example_context
       = Inl NameError"
    by (simp add: pnp_image_inner_def Let_def example_image_def blank_raster_channels
        rotate_and_crop_image_value blank_warp_def)
qed

end
